theory Spec2Isabelle
  imports Complex_Main
begin

section \<open>Basis-set cache of \<^verbatim>\<open>abel/tools/basis.py\<close>\<close>

text \<open>
  The module has one function, \<^verbatim>\<open>get_bs_cached\<close>. It looks for a basis matrix in a
  caller-supplied memory slot, then among the files of a directory, and generates (and
  saves) one otherwise. The embedding makes its effects explicit: the file store is an
  argument and a result, and every call of \<^verbatim>\<open>glob.glob\<close>, \<^verbatim>\<open>np.load\<close>,
  \<^verbatim>\<open>np.save\<close> and of a generating function is recorded as an event.
\<close>

subsection \<open>Strings: \<^verbatim>\<open>str\<close>, \<^verbatim>\<open>int\<close>, \<^verbatim>\<open>split\<close>\<close>

definition digit_char :: "nat \<Rightarrow> char" where
  "digit_char d = ''0123456789'' ! d"

text \<open>Decimal digits of a natural number, most significant first.\<close>

fun str_nat :: "nat \<Rightarrow> string" where
  "str_nat n = (if n < 10 then [digit_char n] else str_nat (n div 10) @ [digit_char (n mod 10)])"

declare str_nat.simps [simp del]

text \<open>\<^verbatim>\<open>str(i)\<close> and \<^verbatim>\<open>"{}".format(i)\<close> for a Python integer.\<close>

definition str_int :: "int \<Rightarrow> string" where
  "str_int i = (if i < 0 then CHR ''-'' # str_nat (nat (- i)) else str_nat (nat i))"

text \<open>
  \<^verbatim>\<open>s.split(c)\<close> for a separator of one character: the tokens between the occurrences
  of \<open>c\<close>; there is always at least one token.
\<close>

fun split_on :: "char \<Rightarrow> string \<Rightarrow> string list" where
  "split_on c [] = [[]]"
| "split_on c (x # xs) =
     (if x = c then [] # split_on c xs
      else (case split_on c xs of [] \<Rightarrow> [[x]] | tok # toks \<Rightarrow> (x # tok) # toks))"


text \<open>
  The characters that \<^verbatim>\<open>int\<close> strips from both ends of its argument: tab, line feed,
  vertical tab, form feed, carriage return and the blank, and beyond ASCII the next-line
  character \<open>0x85\<close> and the no-break space \<open>0xA0\<close>. The separators \<open>0x1C\<close> to \<open>0x1F\<close>,
  which \<^verbatim>\<open>str.strip\<close> removes, are not among them: \<^verbatim>\<open>int('\x1c64')\<close> raises.
\<close>

definition is_space :: "char \<Rightarrow> bool" where
  "is_space c \<longleftrightarrow> c \<in> set [CHR 0x09, CHR 0x0A, CHR 0x0B, CHR 0x0C, CHR 0x0D, CHR '' '',
                            CHR 0x85, CHR 0xA0]"

definition strip :: "string \<Rightarrow> string" where
  "strip s = rev (dropWhile is_space (rev (dropWhile is_space s)))"

definition is_digit :: "char \<Rightarrow> bool" where
  "is_digit c \<longleftrightarrow> c \<in> set ''0123456789''"

text \<open>The value of a digit is its position among the ten digits.\<close>

definition digit_val :: "char \<Rightarrow> int" where
  "digit_val c = int (length (takeWhile (\<lambda>d. d \<noteq> c) ''0123456789''))"

definition digits_val :: "string \<Rightarrow> int" where
  "digits_val ds = foldl (\<lambda>acc c. 10 * acc + digit_val c) 0 ds"

text \<open>
  \<^verbatim>\<open>int(s)\<close> in base ten, \<open>None\<close> where Python raises \<^verbatim>\<open>ValueError\<close>: white space
  is stripped from both ends, one sign is allowed, and at least one digit must follow,
  with nothing else. (\<^verbatim>\<open>int\<close> also allows single underscores between digits; \<open>py_int\<close>
  is applied only to tokens of \<^verbatim>\<open>split('_')\<close>, which hold no underscore. The limit that
  recent versions of Python put on the number of digits, 4300, is beyond the length of
  a file name.)
\<close>

definition py_int :: "string \<Rightarrow> int option" where
  "py_int s =
     (let t = strip s;
          neg = (t \<noteq> [] \<and> hd t = CHR ''-'');
          ds = (if t \<noteq> [] \<and> (hd t = CHR ''-'' \<or> hd t = CHR ''+'') then tl t else t)
      in if ds \<noteq> [] \<and> list_all is_digit ds
         then Some (if neg then - digits_val ds else digits_val ds)
         else None)"

subsection \<open>Arrays\<close>

text \<open>
  A two-dimensional array is the list of its rows; \<^verbatim>\<open>D.shape[0]\<close> is the number of
  rows. \<open>has_shape r c D\<close> says that \<open>D\<close> has \<open>r\<close> rows of \<open>c\<close> entries each.
\<close>

type_synonym 'a ndarray = "'a list list"


text \<open>The slice \<^verbatim>\<open>xs[:k]\<close>: a negative \<open>k\<close> counts from the end.\<close>

definition py_take :: "int \<Rightarrow> 'b list \<Rightarrow> 'b list" where
  "py_take k xs = (if k < 0 then take (nat (int (length xs) + k)) xs else take (nat k) xs)"

text \<open>The slice \<^verbatim>\<open>D[:cols, :nbf]\<close>.\<close>

definition trim :: "int \<Rightarrow> int \<Rightarrow> 'a ndarray \<Rightarrow> 'a ndarray" where
  "trim cols nbf D = map (py_take nbf) (py_take cols D)"

subsection \<open>Options and file names\<close>

text \<open>
  The keys of \<^verbatim>\<open>basis_options\<close> that the function reads, each absent (\<open>None\<close>) or
  present: the Legendre orders are integers, the projection angles are numbers in
  radians, the radial step and the clip are integers. A projection angle is the number
  that the caller wrote; \<^verbatim>\<open>np.array\<close> converts it to a float.
\<close>

record basis_options =
  legendre_orders :: "int list option"
  proj_angles :: "real list option"
  radial_step :: "int option"
  clip :: "int option"

definition no_options :: basis_options where
  "no_options = \<lparr>legendre_orders = None, proj_angles = None, radial_step = None, clip = None\<rparr>"

text \<open>
  Lines 84 to 87 compute in binary64 floating point. A float is a finite real number
  (one that binary64 represents; the two zeros are not told apart) or an infinity; no
  operation used here gives a NaN.
\<close>

datatype float64 = Finite real | PosInf | NegInf

definition pow2 :: "int \<Rightarrow> real" where
  "pow2 k = (if 0 \<le> k then 2 ^ nat k else 1 / 2 ^ nat (- k))"

text \<open>Rounding to the nearest integer, a tie going to the even one.\<close>

definition round_half_even :: "real \<Rightarrow> int" where
  "round_half_even r =
     (let f = \<lfloor>r\<rfloor>
      in if r - of_int f < 1 / 2 then f
         else if 1 / 2 < r - of_int f then f + 1
         else if even f then f else f + 1)"

text \<open>
  The exponent of the last place of a number: 52 below its binary exponent, and never
  below \<open>-1074\<close> (the subnormal numbers).
\<close>

definition ulp_exponent :: "real \<Rightarrow> int" where
  "ulp_exponent x = max (\<lfloor>log 2 \<bar>x\<bar>\<rfloor> - 52) (- 1074)"

text \<open>
  The float nearest to a real number (ties to even), an infinity when that is beyond
  the largest float: the conversion of \<^verbatim>\<open>np.array\<close>, and the rounding of every
  operation.
\<close>

definition to_float64 :: "real \<Rightarrow> float64" where
  "to_float64 x =
     (if x = 0 then Finite 0
      else let q = ulp_exponent x;
               y = of_int (round_half_even (x / pow2 q)) * pow2 q
           in if 2 ^ 1024 \<le> \<bar>y\<bar> then (if 0 < x then PosInf else NegInf) else Finite y)"

text \<open>Product and quotient of a float with a finite positive float \<open>c\<close>.\<close>

definition float_mul :: "float64 \<Rightarrow> real \<Rightarrow> float64" where
  "float_mul a c =
     (case a of Finite x \<Rightarrow> to_float64 (x * c) | PosInf \<Rightarrow> PosInf | NegInf \<Rightarrow> NegInf)"

definition float_div :: "float64 \<Rightarrow> real \<Rightarrow> float64" where
  "float_div a c =
     (case a of Finite x \<Rightarrow> to_float64 (x / c) | PosInf \<Rightarrow> PosInf | NegInf \<Rightarrow> NegInf)"

text \<open>The float \<^verbatim>\<open>np.pi\<close>, which is a little below the number \<open>pi\<close>.\<close>

definition np_pi :: real where
  "np_pi = 884279719003555 / 2 ^ 48"

text \<open>Truncation towards zero.\<close>

definition trunc_int :: "real \<Rightarrow> int" where
  "trunc_int x = (if 0 \<le> x then \<lfloor>x\<rfloor> else \<lceil>x\<rceil>)"

text \<open>
  \<^verbatim>\<open>astype(int)\<close>, the cast of a float to a 64-bit integer: truncation towards zero
  where the result fits, and \<open>- 2 ^ 63\<close> otherwise (what the conversion instruction of
  x86-64 gives for a value out of range or an infinity).
\<close>

definition astype_int :: "float64 \<Rightarrow> int" where
  "astype_int a =
     (case a of
        Finite y \<Rightarrow>
          if - (2 ^ 63) \<le> trunc_int y \<and> trunc_int y < 2 ^ 63 then trunc_int y else - (2 ^ 63)
      | PosInf \<Rightarrow> - (2 ^ 63)
      | NegInf \<Rightarrow> - (2 ^ 63))"

text \<open>
  One element of \<^verbatim>\<open>(np.array(basis_options['proj_angles'])*100/np.pi).astype(int)\<close>
  (lines 84 to 87).
\<close>

definition fractpi :: "real \<Rightarrow> int" where
  "fractpi a = astype_int (float_div (float_mul (to_float64 a) 100) np_pi)"

text \<open>
  The value that each of the four keys adds to the name, in the order of the loop
  (lines 78 to 96): derived from the option when the key is present, the default
  otherwise.
\<close>

definition legendre_orders_value :: "basis_options \<Rightarrow> string" where
  "legendre_orders_value opts =
     (case legendre_orders opts of
        Some orders \<Rightarrow> concat (map str_int orders)
      | None \<Rightarrow> ''02'')"

definition proj_angles_value :: "basis_options \<Rightarrow> string" where
  "proj_angles_value opts =
     (case proj_angles opts of
        Some angles \<Rightarrow> concat (map str_int (map fractpi angles))
      | None \<Rightarrow> ''050'')"

definition radial_step_value :: "basis_options \<Rightarrow> string" where
  "radial_step_value opts =
     (case radial_step opts of Some v \<Rightarrow> str_int v | None \<Rightarrow> str_int 1)"

definition clip_value :: "basis_options \<Rightarrow> string" where
  "clip_value opts =
     (case clip opts of Some v \<Rightarrow> str_int v | None \<Rightarrow> str_int 0)"

text \<open>The name before the extension is added (lines 72 to 96).\<close>

definition basis_stem :: "string \<Rightarrow> int \<Rightarrow> int \<Rightarrow> basis_options \<Rightarrow> string" where
  "basis_stem method cols nbf opts =
     (let stem = method @ ''_basis_'' @ str_int cols @ ''_'' @ str_int nbf
      in if method = ''linbasex''
         then foldl (\<lambda>name v. name @ ''_'' @ v) stem
                [legendre_orders_value opts, proj_angles_value opts,
                 radial_step_value opts, clip_value opts]
         else stem)"

text \<open>The file name (line 98).\<close>

definition basis_name :: "string \<Rightarrow> int \<Rightarrow> int \<Rightarrow> basis_options \<Rightarrow> string" where
  "basis_name method cols nbf opts = basis_stem method cols nbf opts @ ''.npy''"

subsection \<open>Errors, events and the file store\<close>

text \<open>
  The exceptions the function can raise. Both \<open>MethodNotKnown\<close> (line 69, with the
  method) and \<open>InvalidLiteral\<close> (\<^verbatim>\<open>int\<close> at line 105) are a \<^verbatim>\<open>ValueError\<close> in
  Python. \<open>IndexError\<close> is the index \<^verbatim>\<open>[-2]\<close> on a list of fewer than two tokens.
\<close>

datatype error = MethodNotKnown string | InvalidLiteral | IndexError

datatype event =
    Glob string
  | Load string
  | Generate string int
  | Save string

text \<open>
  The file store gives the content of every directory as the list of its files in the
  order in which the operating system lists them, each with the array it holds.
  Directories are named by the string passed as \<^verbatim>\<open>basis_dir\<close>, which is taken to hold
  no wildcard; failures of the operating system (a missing directory, a file that is no
  array) are outside the model.
\<close>

type_synonym 'a directory = "(string \<times> 'a ndarray) list"
type_synonym 'a filestore = "string \<Rightarrow> 'a directory"



text \<open>\<^verbatim>\<open>os.path.join(a, b)\<close> on POSIX.\<close>

definition path_join :: "string \<Rightarrow> string \<Rightarrow> string" where
  "path_join a b =
     (if b \<noteq> [] \<and> hd b = CHR ''/'' then b
      else if a = [] \<or> last a = CHR ''/'' then a @ b
      else a @ ''/'' @ b)"

definition startswith :: "string \<Rightarrow> string \<Rightarrow> bool" where
  "startswith s p \<longleftrightarrow> take (length p) s = p"

text \<open>
  The files of a listing whose name matches the pattern \<^verbatim>\<open>prefix*\<close>, for a prefix
  without wildcards: the names that start with the prefix, in listing order.
\<close>

definition fnmatch_filter :: "string \<Rightarrow> 'a directory \<Rightarrow> 'a directory" where
  "fnmatch_filter pre listing = filter (\<lambda>(name, D). startswith name pre) listing"

text \<open>
  \<^verbatim>\<open>glob.glob(os.path.join(basis_dir, method+'_basis*'))\<close>: the matching files of the
  directory, each as its path (with the array that \<^verbatim>\<open>np.load\<close> of that path returns).
\<close>

definition glob_basis :: "'a filestore \<Rightarrow> string \<Rightarrow> string \<Rightarrow> (string \<times> 'a ndarray) list" where
  "glob_basis fs basis_dir method =
     map (\<lambda>(name, D). (path_join basis_dir name, D))
       (fnmatch_filter (method @ ''_basis'') (fs basis_dir))"

text \<open>
  \<^verbatim>\<open>np.save\<close> of a file in a directory: an existing file of that name is overwritten in
  place, a new file is listed last.
\<close>

fun write_file :: "string \<Rightarrow> 'a ndarray \<Rightarrow> 'a directory \<Rightarrow> 'a directory" where
  "write_file name D [] = [(name, D)]"
| "write_file name D ((n, E) # rest) =
     (if n = name then (n, D) # rest else (n, E) # write_file name D rest)"

definition np_save :: "string \<Rightarrow> string \<Rightarrow> 'a ndarray \<Rightarrow> 'a filestore \<Rightarrow> 'a filestore" where
  "np_save basis_dir name D fs = fs(basis_dir := write_file name D (fs basis_dir))"

subsection \<open>The function\<close>

text \<open>The four generating functions, which live in other modules, are parameters.\<close>

type_synonym 'a generator = "int \<Rightarrow> basis_options \<Rightarrow> 'a ndarray"

record 'a generators =
  bs_linbasex :: "'a generator"
  bs_onion_peeling :: "'a generator"
  bs_three_point :: "'a generator"
  bs_two_point :: "'a generator"

text \<open>The dictionary \<^verbatim>\<open>basis_generator\<close> (lines 61 to 66).\<close>

definition basis_generator :: "'a generators \<Rightarrow> string \<rightharpoonup> 'a generator" where
  "basis_generator g =
     [''linbasex'' \<mapsto> bs_linbasex g,
      ''onion_peeling'' \<mapsto> bs_onion_peeling g,
      ''three_point'' \<mapsto> bs_three_point g,
      ''two_point'' \<mapsto> bs_two_point g]"

text \<open>The index \<^verbatim>\<open>[-2]\<close> of a list.\<close>

definition second_to_last :: "'b list \<Rightarrow> error + 'b" where
  "second_to_last ts = (if 2 \<le> length ts then Inr (ts ! (length ts - 2)) else Inl IndexError)"

text \<open>\<^verbatim>\<open>int(bf.split('_')[-2])\<close> (line 105).\<close>

definition size_field :: "string \<Rightarrow> error + int" where
  "size_field bf =
     (case second_to_last (split_on CHR ''_'' bf) of
        Inl e \<Rightarrow> Inl e
      | Inr tok \<Rightarrow> (case py_int tok of None \<Rightarrow> Inl InvalidLiteral | Some v \<Rightarrow> Inr v))"

text \<open>
  The loop over \<^verbatim>\<open>basis_files\<close> (lines 104 to 110): \<open>None\<close> when the loop ends
  without returning, otherwise the value returned or the exception raised, with the
  events of the loop.
\<close>

fun scan_basis_files ::
  "int \<Rightarrow> int \<Rightarrow> (string \<times> 'a ndarray) list \<Rightarrow> ((error + 'a ndarray) \<times> event list) option" where
  "scan_basis_files cols nbf [] = None"
| "scan_basis_files cols nbf ((bf, D) # rest) =
     (case size_field bf of
        Inl e \<Rightarrow> Some (Inl e, [])
      | Inr v \<Rightarrow>
          if v \<ge> cols then Some (Inr (trim cols nbf D), [Load bf])
          else scan_basis_files cols nbf rest)"


text \<open>The memory slot (lines 54 to 59): the array it returns, if any.\<close>

definition memory_cached ::
  "('a ndarray option \<times> string) option \<Rightarrow> string \<Rightarrow> int \<Rightarrow> 'a ndarray option" where
  "memory_cached cached_basis method cols =
     (case cached_basis of
        None \<Rightarrow> None
      | Some (None, cached_method) \<Rightarrow> None
      | Some (Some cached, cached_method) \<Rightarrow>
          if int (length cached) \<ge> cols \<and> cached_method = method then Some cached else None)"

record 'a outcome =
  result :: "error + 'a ndarray"
  events :: "event list"
  files :: "'a filestore"

text \<open>Lines 122 to 131: generate, save if there is a directory, return.\<close>

definition generate_and_save ::
  "'a generator \<Rightarrow> string \<Rightarrow> int \<Rightarrow> int \<Rightarrow> string option \<Rightarrow> basis_options \<Rightarrow>
   event list \<Rightarrow> 'a filestore \<Rightarrow> 'a outcome" where
  "generate_and_save gen method cols nbf basis_dir opts evs fs =
     (let D = gen cols opts
      in case basis_dir of
           None \<Rightarrow> \<lparr>result = Inr D, events = evs @ [Generate method cols], files = fs\<rparr>
         | Some d \<Rightarrow>
             \<lparr>result = Inr D,
              events = evs @ [Generate method cols,
                              Save (path_join d (basis_name method cols nbf opts))],
              files = np_save d (basis_name method cols nbf opts) D fs\<rparr>)"

definition get_bs_cached ::
  "'a generators \<Rightarrow> string \<Rightarrow> int \<Rightarrow> int \<Rightarrow> string option \<Rightarrow>
   ('a ndarray option \<times> string) option \<Rightarrow> basis_options \<Rightarrow> 'a filestore \<Rightarrow> 'a outcome" where
  "get_bs_cached g method cols nbf basis_dir cached_basis opts fs =
     (case memory_cached cached_basis method cols of
        Some cached \<Rightarrow> \<lparr>result = Inr cached, events = [], files = fs\<rparr>
      | None \<Rightarrow>
          (case basis_generator g method of
             None \<Rightarrow> \<lparr>result = Inl (MethodNotKnown method), events = [], files = fs\<rparr>
           | Some gen \<Rightarrow>
               (case basis_dir of
                  None \<Rightarrow> generate_and_save gen method cols nbf basis_dir opts [] fs
                | Some d \<Rightarrow>
                    (case scan_basis_files cols nbf (glob_basis fs d method) of
                       Some (r, evs) \<Rightarrow>
                         \<lparr>result = r,
                          events = Glob (path_join d (method @ ''_basis*'')) # evs,
                          files = fs\<rparr>
                     | None \<Rightarrow>
                         generate_and_save gen method cols nbf basis_dir opts
                           [Glob (path_join d (method @ ''_basis*''))] fs))))"

subsection \<open>Concrete inputs\<close>

text \<open>
  Inputs for the examples below: a store without files, a constant array, and four
  generating functions that return square arrays of the requested size.
\<close>

definition empty_store :: "int filestore" where
  "empty_store = (\<lambda>d. [])"

definition const_array :: "nat \<Rightarrow> nat \<Rightarrow> int \<Rightarrow> int ndarray" where
  "const_array r c v = replicate r (replicate c v)"

definition example_generators :: "int generators" where
  "example_generators =
     \<lparr>bs_linbasex = (\<lambda>cols opts. const_array (nat cols) (nat cols) 1),
      bs_onion_peeling = (\<lambda>cols opts. const_array (nat cols) (nat cols) 2),
      bs_three_point = (\<lambda>cols opts. const_array (nat cols) (nat cols) 3),
      bs_two_point = (\<lambda>cols opts. const_array (nat cols) (nat cols) 4)\<rparr>"


section \<open>Properties\<close>

subsection \<open>Printing and reading integers\<close>

lemma str_nat_digit: "n < 10 \<Longrightarrow> str_nat n = [digit_char n]"
  by (subst str_nat.simps) simp

lemma str_nat_step: "10 \<le> n \<Longrightarrow> str_nat n = str_nat (n div 10) @ [digit_char (n mod 10)]"
  by (subst str_nat.simps) simp


lemma str_int_0: "str_int 0 = ''0''"
  by (simp add: str_int_def str_nat_digit digit_char_def)

lemma str_int_1: "str_int 1 = ''1''"
  by (simp add: str_int_def str_nat_digit digit_char_def)

lemma str_int_3: "str_int 3 = ''3''"
  by (simp add: str_int_def str_nat_digit digit_char_def)

lemma str_int_25: "str_int 25 = ''25''"
  by (simp add: str_int_def str_nat_digit str_nat_step digit_char_def)

lemma str_int_50: "str_int 50 = ''50''"
  by (simp add: str_int_def str_nat_digit str_nat_step digit_char_def)

lemma str_int_64: "str_int 64 = ''64''"
  by (simp add: str_int_def str_nat_digit str_nat_step digit_char_def)

lemma str_int_75: "str_int 75 = ''75''"
  by (simp add: str_int_def str_nat_digit str_nat_step digit_char_def)


lemma str_int_minus_15: "str_int (- 15) = ''-15''"
  by (simp add: str_int_def str_nat_digit str_nat_step digit_char_def)















text \<open>
  The definitions that evaluate \<open>py_int\<close> on a string literal, and what it gives on
  some strings: a separator \<open>0x1C\<close> or \<open>0x1F\<close> at an end is not stripped, a no-break
  space or a next-line character is.
\<close>

lemmas py_int_eval = py_int_def strip_def is_space_def is_digit_def digits_val_def digit_val_def

lemma py_int_examples:
  "py_int [CHR 0x1C, CHR ''6'', CHR ''4''] = None"
  "py_int [CHR ''6'', CHR ''4'', CHR 0x1F] = None"
  "py_int [CHR 0xA0, CHR ''6'', CHR ''4''] = Some 64"
  "py_int [CHR ''6'', CHR ''4'', CHR 0x85] = Some 64"
  "py_int '' +64 '' = Some 64"
  "py_int ''-64'' = Some (- 64)"
  "py_int ''+ 64'' = None"
  "py_int ''064'' = Some 64"
  "py_int [] = None"
  by (simp_all add: py_int_eval)

subsection \<open>Floating point\<close>

lemma pow2_pos: "0 < pow2 k"
  by (simp add: pow2_def)

lemma pow2_powr: "pow2 k = 2 powr (of_int k)"
proof (cases "0 \<le> k")
  case True
  then have "(2::real) powr (of_int k) = 2 powr (real (nat k))" by simp
  also have "\<dots> = 2 ^ nat k" by (simp add: powr_realpow)
  finally show ?thesis using True by (simp add: pow2_def)
next
  case False
  then have "(2::real) powr (of_int k) = 2 powr (- real (nat (- k)))" by simp
  also have "\<dots> = 1 / 2 ^ nat (- k)" by (simp add: powr_minus powr_realpow divide_inverse)
  finally show ?thesis using False by (simp add: pow2_def)
qed

lemma pow2_add: "pow2 (a + b) = pow2 a * pow2 b"
  by (simp add: pow2_powr powr_add)

lemma pow2_mono: "a \<le> b \<Longrightarrow> pow2 a \<le> pow2 b"
  by (simp add: pow2_powr)

lemma pow2_nat: "0 \<le> k \<Longrightarrow> pow2 k = of_int (2 ^ nat k)"
  by (simp add: pow2_def)

lemma floor_log2_eq:
  assumes "pow2 e \<le> \<bar>x\<bar>" and "\<bar>x\<bar> < pow2 (e + 1)"
  shows "\<lfloor>log 2 \<bar>x\<bar>\<rfloor> = e"
proof -
  have "0 < \<bar>x\<bar>" using assms(1) pow2_pos [of e] by linarith
  then show ?thesis
    using assms by (simp add: floor_log_eq_powr_iff pow2_powr)
qed

lemma round_half_even_down:
  "of_int f \<le> r \<Longrightarrow> r < of_int f + 1 / 2 \<Longrightarrow> round_half_even r = f"
proof -
  assume a: "of_int f \<le> r" "r < of_int f + 1 / 2"
  then have "\<lfloor>r\<rfloor> = f" by linarith
  with a show ?thesis by (simp add: round_half_even_def)
qed

lemma round_half_even_up:
  "of_int f + 1 / 2 < r \<Longrightarrow> r < of_int f + 1 \<Longrightarrow> round_half_even r = f + 1"
proof -
  assume a: "of_int f + 1 / 2 < r" "r < of_int f + 1"
  then have "\<lfloor>r\<rfloor> = f" by linarith
  with a show ?thesis by (simp add: round_half_even_def)
qed

lemma round_half_even_of_int: "round_half_even (of_int n) = n"
  by (simp add: round_half_even_def)

text \<open>
  How \<open>to_float64\<close> is evaluated: the binary exponent \<open>e\<close> of the number and the
  rounded multiple \<open>n\<close> of the last place give the float.
\<close>

lemma to_float64_eval:
  assumes "pow2 e \<le> \<bar>x\<bar>" and "\<bar>x\<bar> < pow2 (e + 1)" and "- 1022 \<le> e"
    and "round_half_even (x / pow2 (e - 52)) = n"
    and "\<bar>of_int n * pow2 (e - 52)\<bar> < 2 ^ 1024"
  shows "to_float64 x = Finite (of_int n * pow2 (e - 52))"
proof -
  have "x \<noteq> 0" using assms(1) pow2_pos [of e] by auto
  moreover have "ulp_exponent x = e - 52"
    using floor_log2_eq [OF assms(1,2)] assms(3) by (simp add: ulp_exponent_def)
  ultimately show ?thesis
    using assms(4,5) by (simp add: to_float64_def Let_def)
qed

text \<open>
  A number that binary64 represents, an integer of fewer than 54 bits times a power of
  two in range, is its own float.
\<close>

lemma to_float64_exact:
  assumes "m \<noteq> 0" and "\<bar>m\<bar> < 2 ^ 53" and "- 1074 \<le> k" and "k \<le> 971"
  shows "to_float64 (of_int m * pow2 k) = Finite (of_int m * pow2 k)"
proof -
  let ?x = "of_int m * pow2 k :: real"
  have pos: "0 < \<bar>?x\<bar>"
    using assms(1) pow2_pos [of k] by simp
  have "\<bar>real_of_int m\<bar> < 2 ^ 53"
    using assms(2) by (metis of_int_abs of_int_less_numeral_power_cancel_iff)
  then have "\<bar>?x\<bar> < 2 ^ 53 * pow2 k"
    using pow2_pos [of k] by (simp add: abs_mult)
  also have "\<dots> = pow2 (53 + k)"
  proof -
    have "pow2 53 = 2 ^ 53" by (simp add: pow2_def)
    then show ?thesis by (simp only: pow2_add)
  qed
  finally have upper: "\<bar>?x\<bar> < pow2 (53 + k)" .
  then have "log 2 \<bar>?x\<bar> < of_int (53 + k)"
    using pos by (simp add: pow2_powr log_less_iff)
  then have "\<lfloor>log 2 \<bar>?x\<bar>\<rfloor> < 53 + k"
    by (simp add: floor_less_iff)
  then have q: "ulp_exponent ?x \<le> k"
    using assms(3) by (simp add: ulp_exponent_def)
  define q where "q = ulp_exponent ?x"
  define N where "N = m * 2 ^ nat (k - q)"
  have "pow2 k = pow2 (k - q) * pow2 q"
    using pow2_add [of "k - q" q] by simp
  moreover have "pow2 (k - q) = of_int (2 ^ nat (k - q))"
    using q by (intro pow2_nat) (simp add: q_def)
  ultimately have x: "?x = of_int N * pow2 q"
    by (simp add: N_def)
  then have "?x / pow2 q = of_int N"
    using pow2_pos [of q] by simp
  then have "of_int (round_half_even (?x / pow2 q)) * pow2 q = ?x"
    using x by (simp only: round_half_even_of_int)
  moreover have "\<bar>?x\<bar> < 2 ^ 1024"
  proof -
    have "pow2 (53 + k) \<le> pow2 1024"
      using assms(4) by (intro pow2_mono) simp
    also have "\<dots> = 2 ^ 1024" by (simp add: pow2_def)
    finally show ?thesis using upper by linarith
  qed
  moreover have "?x \<noteq> 0" using pos by simp
  ultimately show ?thesis
    unfolding to_float64_def q_def [symmetric] Let_def by (simp del: of_int_mult)
qed

lemma to_float64_zero: "to_float64 0 = Finite 0"
  by (simp add: to_float64_def)

text \<open>
  The computation of lines 84 to 87 at the floats \<^verbatim>\<open>np.pi/4\<close>, \<^verbatim>\<open>np.pi/2\<close> and
  \<^verbatim>\<open>3*np.pi/4\<close>, at \<open>-0.5\<close>, where the quotient is not an integer, at the float
  \<^verbatim>\<open>3*np.pi/100\<close>, where the rounding of the product decides the integer, and at
  \<open>10 ^ 30\<close>, where the quotient does not fit 64 bits.
\<close>

lemma fractpi_0: "fractpi 0 = 0"
  by (simp add: fractpi_def to_float64_zero float_mul_def float_div_def astype_int_def trunc_int_def)

lemma to_float64_quarter: "to_float64 (np_pi / 4) = Finite (np_pi / 4)"
proof -
  have "round_half_even (np_pi / 4 / pow2 (- 1 - 52)) = 7074237752028440"
    by (rule round_half_even_down) (simp_all add: np_pi_def pow2_def)
  then have "to_float64 (np_pi / 4) = Finite (of_int 7074237752028440 * pow2 (- 1 - 52))"
    by (intro to_float64_eval) (simp_all add: np_pi_def pow2_def)
  then show ?thesis by (simp add: np_pi_def pow2_def)
qed

lemma float_mul_quarter: "float_mul (Finite (np_pi / 4)) 100 = Finite (5526748243772219 / 2 ^ 46)"
proof -
  have "round_half_even (np_pi / 4 * 100 / pow2 (6 - 52)) = 5526748243772218 + 1"
    by (rule round_half_even_up) (simp_all add: np_pi_def pow2_def)
  then have "to_float64 (np_pi / 4 * 100) = Finite (of_int 5526748243772219 * pow2 (6 - 52))"
    by (intro to_float64_eval) (simp_all add: np_pi_def pow2_def)
  then show ?thesis by (simp add: float_mul_def pow2_def)
qed

lemma float_div_quarter: "float_div (Finite (5526748243772219 / 2 ^ 46)) np_pi = Finite 25"
proof -
  have "round_half_even (5526748243772219 / 2 ^ 46 / np_pi / pow2 (4 - 52)) = 7036874417766400"
    by (rule round_half_even_down) (simp_all add: np_pi_def pow2_def)
  then have "to_float64 (5526748243772219 / 2 ^ 46 / np_pi) =
      Finite (of_int 7036874417766400 * pow2 (4 - 52))"
    by (intro to_float64_eval) (simp_all add: np_pi_def pow2_def)
  then show ?thesis by (simp add: float_div_def pow2_def)
qed

lemma fractpi_quarter: "fractpi (np_pi / 4) = 25"
proof -
  have q: "float_div (float_mul (to_float64 (np_pi / 4)) 100) np_pi = Finite 25"
    by (simp only: to_float64_quarter float_mul_quarter float_div_quarter)
  show ?thesis
    unfolding fractpi_def q by (simp add: astype_int_def trunc_int_def)
qed

lemma to_float64_half: "to_float64 (np_pi / 2) = Finite (np_pi / 2)"
proof -
  have "round_half_even (np_pi / 2 / pow2 (0 - 52)) = 7074237752028440"
    by (rule round_half_even_down) (simp_all add: np_pi_def pow2_def)
  then have "to_float64 (np_pi / 2) = Finite (of_int 7074237752028440 * pow2 (0 - 52))"
    by (intro to_float64_eval) (simp_all add: np_pi_def pow2_def)
  then show ?thesis by (simp add: np_pi_def pow2_def)
qed

lemma float_mul_half: "float_mul (Finite (np_pi / 2)) 100 = Finite (5526748243772219 / 2 ^ 45)"
proof -
  have "round_half_even (np_pi / 2 * 100 / pow2 (7 - 52)) = 5526748243772218 + 1"
    by (rule round_half_even_up) (simp_all add: np_pi_def pow2_def)
  then have "to_float64 (np_pi / 2 * 100) = Finite (of_int 5526748243772219 * pow2 (7 - 52))"
    by (intro to_float64_eval) (simp_all add: np_pi_def pow2_def)
  then show ?thesis by (simp add: float_mul_def pow2_def)
qed

lemma float_div_half: "float_div (Finite (5526748243772219 / 2 ^ 45)) np_pi = Finite 50"
proof -
  have "round_half_even (5526748243772219 / 2 ^ 45 / np_pi / pow2 (5 - 52)) = 7036874417766400"
    by (rule round_half_even_down) (simp_all add: np_pi_def pow2_def)
  then have "to_float64 (5526748243772219 / 2 ^ 45 / np_pi) =
      Finite (of_int 7036874417766400 * pow2 (5 - 52))"
    by (intro to_float64_eval) (simp_all add: np_pi_def pow2_def)
  then show ?thesis by (simp add: float_div_def pow2_def)
qed

lemma fractpi_half: "fractpi (np_pi / 2) = 50"
proof -
  have q: "float_div (float_mul (to_float64 (np_pi / 2)) 100) np_pi = Finite 50"
    by (simp only: to_float64_half float_mul_half float_div_half)
  show ?thesis
    unfolding fractpi_def q by (simp add: astype_int_def trunc_int_def)
qed

lemma to_float64_three_quarters: "to_float64 (3 * np_pi / 4) = Finite (3 * np_pi / 4)"
proof -
  have "round_half_even (3 * np_pi / 4 / pow2 (1 - 52)) = 5305678314021330"
    by (rule round_half_even_down) (simp_all add: np_pi_def pow2_def)
  then have "to_float64 (3 * np_pi / 4) = Finite (of_int 5305678314021330 * pow2 (1 - 52))"
    by (intro to_float64_eval) (simp_all add: np_pi_def pow2_def)
  then show ?thesis by (simp add: np_pi_def pow2_def)
qed

lemma float_mul_three_quarters:
  "float_mul (Finite (3 * np_pi / 4)) 100 = Finite (1036265295707291 / 2 ^ 42)"
proof -
  have "round_half_even (3 * np_pi / 4 * 100 / pow2 (7 - 52)) = 8290122365658328"
    by (rule round_half_even_down) (simp_all add: np_pi_def pow2_def)
  then have "to_float64 (3 * np_pi / 4 * 100) = Finite (of_int 8290122365658328 * pow2 (7 - 52))"
    by (intro to_float64_eval) (simp_all add: np_pi_def pow2_def)
  then show ?thesis by (simp add: float_mul_def pow2_def)
qed

lemma float_div_three_quarters:
  "float_div (Finite (1036265295707291 / 2 ^ 42)) np_pi = Finite 75"
proof -
  have "round_half_even (1036265295707291 / 2 ^ 42 / np_pi / pow2 (6 - 52)) = 5277655813324799 + 1"
    by (rule round_half_even_up) (simp_all add: np_pi_def pow2_def)
  then have "to_float64 (1036265295707291 / 2 ^ 42 / np_pi) =
      Finite (of_int 5277655813324800 * pow2 (6 - 52))"
    by (intro to_float64_eval) (simp_all add: np_pi_def pow2_def)
  then show ?thesis by (simp add: float_div_def pow2_def)
qed

lemma fractpi_three_quarters: "fractpi (3 * np_pi / 4) = 75"
proof -
  have q: "float_div (float_mul (to_float64 (3 * np_pi / 4)) 100) np_pi = Finite 75"
    by (simp only: to_float64_three_quarters float_mul_three_quarters float_div_three_quarters)
  show ?thesis
    unfolding fractpi_def q by (simp add: astype_int_def trunc_int_def)
qed

lemma to_float64_minus_half: "to_float64 (- 1 / 2) = Finite (- 1 / 2)"
proof -
  have "round_half_even (- 1 / 2 / pow2 (- 1 - 52)) = - 4503599627370496"
    by (rule round_half_even_down) (simp_all add: pow2_def)
  then have "to_float64 (- 1 / 2) = Finite (of_int (- 4503599627370496) * pow2 (- 1 - 52))"
    by (intro to_float64_eval) (simp_all add: pow2_def)
  then show ?thesis by (simp add: pow2_def)
qed

lemma float_mul_minus_half: "float_mul (Finite (- 1 / 2)) 100 = Finite (- 50)"
proof -
  have "round_half_even (- 1 / 2 * 100 / pow2 (5 - 52)) = - 7036874417766400"
    by (rule round_half_even_down) (simp_all add: pow2_def)
  then have "to_float64 (- 1 / 2 * 100) = Finite (of_int (- 7036874417766400) * pow2 (5 - 52))"
    by (intro to_float64_eval) (simp_all add: pow2_def)
  then show ?thesis by (simp add: float_mul_def pow2_def)
qed

lemma float_div_minus_half:
  "float_div (Finite (- 50)) np_pi = Finite (- 2239906695008851 / 2 ^ 47)"
proof -
  have "round_half_even (- 50 / np_pi / pow2 (3 - 52)) = - 8959626780035405 + 1"
    by (rule round_half_even_up) (simp_all add: np_pi_def pow2_def)
  then have "to_float64 (- 50 / np_pi) = Finite (of_int (- 8959626780035404) * pow2 (3 - 52))"
    by (intro to_float64_eval) (simp_all add: np_pi_def pow2_def)
  then show ?thesis by (simp add: float_div_def pow2_def)
qed

lemma fractpi_minus_half: "fractpi (- 1 / 2) = - 15"
proof -
  have q: "float_div (float_mul (to_float64 (- 1 / 2)) 100) np_pi =
             Finite (- 2239906695008851 / 2 ^ 47)"
    by (simp only: to_float64_minus_half float_mul_minus_half float_div_minus_half)
  have "\<lceil>- 2239906695008851 / 2 ^ 47 :: real\<rceil> = - 15"
    by (simp add: ceiling_eq_iff)
  then show ?thesis
    unfolding fractpi_def q by (simp add: astype_int_def trunc_int_def)
qed

lemma to_float64_three_percent:
  "to_float64 (3395634120973651 / 2 ^ 55) = Finite (3395634120973651 / 2 ^ 55)"
  using to_float64_exact [of 3395634120973651 "- 55"] by (simp add: pow2_def)

lemma float_mul_three_percent:
  "float_mul (Finite (3395634120973651 / 2 ^ 55)) 100 = Finite (2652839157010665 / 2 ^ 48)"
proof -
  have "round_half_even (3395634120973651 / 2 ^ 55 * 100 / pow2 (3 - 52)) = 5305678314021329 + 1"
    by (rule round_half_even_up) (simp_all add: pow2_def)
  then have "to_float64 (3395634120973651 / 2 ^ 55 * 100) =
      Finite (of_int 5305678314021330 * pow2 (3 - 52))"
    by (intro to_float64_eval) (simp_all add: pow2_def)
  then show ?thesis by (simp add: float_mul_def pow2_def)
qed

lemma float_div_three_percent:
  "float_div (Finite (2652839157010665 / 2 ^ 48)) np_pi = Finite 3"
proof -
  have "round_half_even (2652839157010665 / 2 ^ 48 / np_pi / pow2 (1 - 52)) = 6755399441055744"
    by (rule round_half_even_down) (simp_all add: np_pi_def pow2_def)
  then have "to_float64 (2652839157010665 / 2 ^ 48 / np_pi) =
      Finite (of_int 6755399441055744 * pow2 (1 - 52))"
    by (intro to_float64_eval) (simp_all add: np_pi_def pow2_def)
  then show ?thesis by (simp add: float_div_def pow2_def)
qed

lemma fractpi_three_percent: "fractpi (3395634120973651 / 2 ^ 55) = 3"
proof -
  have q: "float_div (float_mul (to_float64 (3395634120973651 / 2 ^ 55)) 100) np_pi = Finite 3"
    by (simp only: to_float64_three_percent float_mul_three_percent float_div_three_percent)
  show ?thesis
    unfolding fractpi_def q by (simp add: astype_int_def trunc_int_def)
qed

text \<open>
  Without the rounding of the product this angle would give 2: the exact quotient is
  below 3.
\<close>

lemma exact_quotient_three_percent:
  "trunc_int (3395634120973651 / 2 ^ 55 * 100 / np_pi) = 2"
  by (simp add: trunc_int_def np_pi_def floor_eq_iff)

lemma to_float64_1e30: "to_float64 (10 ^ 30) = Finite (7105427357601002 * 2 ^ 47)"
proof -
  have "round_half_even (10 ^ 30 / pow2 (99 - 52)) = 7105427357601001 + 1"
    by (rule round_half_even_up) (simp_all add: pow2_def)
  then have "to_float64 (10 ^ 30) = Finite (of_int 7105427357601002 * pow2 (99 - 52))"
    by (intro to_float64_eval) (simp_all add: pow2_def)
  then show ?thesis by (simp add: pow2_def)
qed

lemma float_mul_1e30:
  "float_mul (Finite (7105427357601002 * 2 ^ 47)) 100 = Finite (5551115123125783 * 2 ^ 54)"
proof -
  have "round_half_even (7105427357601002 * 2 ^ 47 * 100 / pow2 (106 - 52)) = 5551115123125782 + 1"
    by (rule round_half_even_up) (simp_all add: pow2_def)
  then have "to_float64 (7105427357601002 * 2 ^ 47 * 100) =
      Finite (of_int 5551115123125783 * pow2 (106 - 52))"
    by (intro to_float64_eval) (simp_all add: pow2_def)
  then show ?thesis by (simp add: float_mul_def pow2_def)
qed

lemma float_div_1e30:
  "float_div (Finite (5551115123125783 * 2 ^ 54)) np_pi = Finite (7067899292141149 * 2 ^ 52)"
proof -
  have "round_half_even (5551115123125783 * 2 ^ 54 / np_pi / pow2 (104 - 52)) = 7067899292141148 + 1"
    by (rule round_half_even_up) (simp_all add: np_pi_def pow2_def)
  then have "to_float64 (5551115123125783 * 2 ^ 54 / np_pi) =
      Finite (of_int 7067899292141149 * pow2 (104 - 52))"
    by (intro to_float64_eval) (simp_all add: np_pi_def pow2_def)
  then show ?thesis by (simp add: float_div_def pow2_def)
qed

lemma fractpi_out_of_range: "fractpi (10 ^ 30) = - (2 ^ 63)"
proof -
  have q: "float_div (float_mul (to_float64 (10 ^ 30)) 100) np_pi =
             Finite (7067899292141149 * 2 ^ 52)"
    by (simp only: to_float64_1e30 float_mul_1e30 float_div_1e30)
  show ?thesis
    unfolding fractpi_def q by (simp add: astype_int_def trunc_int_def)
qed

subsection \<open>Tokens of a file name\<close>



























lemma size_field_linbasex_example:
  "size_field ''cache/linbasex_basis_64_64_02_050_64_0.npy'' = Inr 64"
  by (simp add: size_field_def second_to_last_def py_int_eval)

lemma size_field_linbasex_default:
  "size_field ''cache/linbasex_basis_64_64_02_050_1_0.npy'' = Inr 1"
  by (simp add: size_field_def second_to_last_def py_int_eval)

lemma linbasex_names:
  "basis_name ''linbasex'' 64 64 (no_options\<lparr>radial_step := Some 64\<rparr>) =
     ''linbasex_basis_64_64_02_050_64_0.npy''"
  "basis_name ''linbasex'' 64 64 no_options = ''linbasex_basis_64_64_02_050_1_0.npy''"
  by (simp_all add: basis_name_def basis_stem_def no_options_def legendre_orders_value_def
      proj_angles_value_def radial_step_value_def clip_value_def str_int_0 str_int_1 str_int_64)

subsection \<open>Slices\<close>




subsection \<open>The steps of the function\<close>

lemma basis_generator_None:
  "basis_generator g method = None \<longleftrightarrow>
     method \<notin> {''linbasex'', ''onion_peeling'', ''three_point'', ''two_point''}"
  by (simp add: basis_generator_def)



lemma events_generate_and_save:
  "events (generate_and_save gen method cols nbf basis_dir opts evs fs) =
     evs @ Generate method cols #
       (case basis_dir of None \<Rightarrow> []
        | Some d \<Rightarrow> [Save (path_join d (basis_name method cols nbf opts))])"
  by (simp add: generate_and_save_def Let_def split: option.splits)


lemma files_generate_and_save:
  "files (generate_and_save gen method cols nbf basis_dir opts evs fs) =
     (case basis_dir of None \<Rightarrow> fs
      | Some d \<Rightarrow> np_save d (basis_name method cols nbf opts) (gen cols opts) fs)"
  by (simp add: generate_and_save_def Let_def split: option.splits)






subsection \<open>The memory slot\<close>

text \<open>
  C7. A call that is given a memory slot whose method is the requested one and whose
  array has at least \<open>cols\<close> rows returns that array as it is (no row or column is cut,
  the options are not looked at), with no event at all (no listing, load, save or
  generation) and the file store unchanged.
\<close>

theorem memory_slot_short_circuit:
  assumes "int (length B) \<ge> cols"
  shows "get_bs_cached g method cols nbf basis_dir (Some (Some B, method)) opts fs =
           \<lparr>result = Inr B, events = [], files = fs\<rparr>"
  using assms by (simp add: get_bs_cached_def memory_cached_def)

theorem memory_slot_short_circuit_witness:
  "int (length (const_array 3 5 7)) \<ge> 2 \<and>
   get_bs_cached example_generators ''linbasex'' 2 2 (Some ''.'')
     (Some (Some (const_array 3 5 7), ''linbasex''))
     (no_options\<lparr>radial_step := Some 9\<rparr>) empty_store =
     \<lparr>result = Inr (const_array 3 5 7), events = [], files = empty_store\<rparr>"
  using memory_slot_short_circuit [of 2 "const_array 3 5 7" example_generators "''linbasex''" 2
      "Some ''.''" "no_options\<lparr>radial_step := Some 9\<rparr>" empty_store]
  by (simp add: const_array_def)

subsection \<open>Unknown methods\<close>

text \<open>
  C2, as the code has it. The memory slot is checked before the method is: a call with
  a method outside the four known ones raises the \<^verbatim>\<open>ValueError\<close> of line 69 unless the
  memory slot answers it (then the array of the slot is returned). In both cases there
  is no event (no generation, no disk access) and the file store is unchanged.
\<close>

theorem unknown_method_rejected:
  assumes "method \<notin> {''linbasex'', ''onion_peeling'', ''three_point'', ''two_point''}"
  shows "get_bs_cached g method cols nbf basis_dir cached_basis opts fs =
           \<lparr>result = (case memory_cached cached_basis method cols of
                         Some B \<Rightarrow> Inr B
                       | None \<Rightarrow> Inl (MethodNotKnown method)),
            events = [], files = fs\<rparr>"
  using assms basis_generator_None [of g "method"]
  by (simp add: get_bs_cached_def split: option.splits)

theorem unknown_method_rejected_witness:
  "''nonexistent_method'' \<notin> {''linbasex'', ''onion_peeling'', ''three_point'', ''two_point''} \<and>
   get_bs_cached example_generators ''nonexistent_method'' 64 64 (Some ''.'') None
     no_options empty_store =
     \<lparr>result = Inl (MethodNotKnown ''nonexistent_method''), events = [], files = empty_store\<rparr>"
  using unknown_method_rejected [of "''nonexistent_method''" example_generators 64 64
      "Some ''.''" None no_options empty_store]
  by (simp add: memory_cached_def)

text \<open>
  The claim as it is written fails: with a memory slot that records the same unknown
  method, the call returns the array of the slot and raises nothing.
\<close>

theorem unknown_method_counterexample:
  "''nonexistent_method'' \<notin> {''linbasex'', ''onion_peeling'', ''three_point'', ''two_point''} \<and>
   result (get_bs_cached example_generators ''nonexistent_method'' 1 1 (Some ''.'')
     (Some (Some [[0]], ''nonexistent_method'')) no_options empty_store) = Inr [[0]]"
  by (simp add: get_bs_cached_def memory_cached_def)

subsection \<open>File names\<close>

text \<open>
  C8. For \<^verbatim>\<open>linbasex\<close> and no option at all, the name before the extension ends in
  \<^verbatim>\<open>_02_050_1_0\<close>, whatever \<open>cols\<close> and \<open>nbf\<close> are: the four defaults in the order
  Legendre orders, projection angles, radial step, clip. The derivation of the name is a
  total function; it has no error to raise.
\<close>

theorem linbasex_default_name:
  "basis_stem ''linbasex'' cols nbf no_options =
     ''linbasex_basis_'' @ str_int cols @ ''_'' @ str_int nbf @ ''_02_050_1_0'' \<and>
   basis_name ''linbasex'' cols nbf no_options =
     ''linbasex_basis_'' @ str_int cols @ ''_'' @ str_int nbf @ ''_02_050_1_0'' @ ''.npy''"
  by (simp add: basis_name_def basis_stem_def no_options_def legendre_orders_value_def
      proj_angles_value_def radial_step_value_def clip_value_def str_int_0 str_int_1)

lemma proj_angles_example:
  "proj_angles_value (opts\<lparr>proj_angles := Some [0, np_pi / 4, np_pi / 2, 3 * np_pi / 4]\<rparr>) =
     ''0255075''"
  by (simp add: proj_angles_value_def fractpi_0 fractpi_quarter fractpi_half
      fractpi_three_quarters str_int_0 str_int_25 str_int_50 str_int_75)

lemma proj_angles_negative:
  "proj_angles_value (opts\<lparr>proj_angles := Some [- 1 / 2]\<rparr>) = ''-15''"
proof -
  have "fractpi (- (1 / 2)) = - 15"
    using fractpi_minus_half by simp
  then show ?thesis
    by (simp add: proj_angles_value_def str_int_minus_15)
qed

lemma proj_angles_rounded:
  "proj_angles_value (opts\<lparr>proj_angles := Some [3395634120973651 / 2 ^ 55]\<rparr>) = ''3''"
proof -
  have "fractpi (3395634120973651 / 36028797018963968) = 3"
    using fractpi_three_percent by simp
  then show ?thesis
    by (simp add: proj_angles_value_def str_int_3)
qed

text \<open>
  C4, as the code has it. The projection angles are the second of the four values
  that a \<^verbatim>\<open>linbasex\<close> name carries. Each angle is converted to a float, multiplied by
  100 and divided by \<^verbatim>\<open>np.pi\<close> in floating point, and cast to a 64-bit integer, which
  cuts towards zero; the integers are written one after the other. The angles of 0,
  45, 90 and 135 degrees, as the floats \<open>0\<close>, \<^verbatim>\<open>np.pi/4\<close>, \<^verbatim>\<open>np.pi/2\<close> and
  \<^verbatim>\<open>3*np.pi/4\<close>, give \<^verbatim>\<open>0255075\<close>; the angle \<open>-0.5\<close> gives \<^verbatim>\<open>-15\<close>; the float
  \<^verbatim>\<open>3*np.pi/100\<close> gives \<^verbatim>\<open>3\<close>, where exact arithmetic would give 2; without the option
  the value is \<^verbatim>\<open>050\<close>.
\<close>

theorem proj_angles_segment:
  "basis_stem ''linbasex'' cols nbf opts =
     ''linbasex_basis_'' @ str_int cols @ ''_'' @ str_int nbf @ ''_'' @
     legendre_orders_value opts @ ''_'' @ proj_angles_value opts @ ''_'' @
     radial_step_value opts @ ''_'' @ clip_value opts \<and>
   proj_angles_value (opts\<lparr>proj_angles := Some angles\<rparr>) =
     concat (map (\<lambda>a. str_int
        (astype_int (float_div (float_mul (to_float64 a) 100) np_pi))) angles) \<and>
   proj_angles_value (opts\<lparr>proj_angles := Some [0, np_pi / 4, np_pi / 2, 3 * np_pi / 4]\<rparr>) =
     ''0255075'' \<and>
   proj_angles_value (opts\<lparr>proj_angles := Some [- 1 / 2]\<rparr>) = ''-15'' \<and>
   proj_angles_value (opts\<lparr>proj_angles := Some [3395634120973651 / 2 ^ 55]\<rparr>) = ''3'' \<and>
   proj_angles_value (opts\<lparr>proj_angles := None\<rparr>) = ''050''"
proof -
  have "proj_angles_value (opts\<lparr>proj_angles := Some angles\<rparr>) =
     concat (map (\<lambda>a. str_int
        (astype_int (float_div (float_mul (to_float64 a) 100) np_pi))) angles)"
    by (simp add: proj_angles_value_def fractpi_def comp_def)
  moreover have "proj_angles_value (opts\<lparr>proj_angles := None\<rparr>) = ''050''"
    by (simp add: proj_angles_value_def)
  moreover have "basis_stem ''linbasex'' cols nbf opts =
     ''linbasex_basis_'' @ str_int cols @ ''_'' @ str_int nbf @ ''_'' @
     legendre_orders_value opts @ ''_'' @ proj_angles_value opts @ ''_'' @
     radial_step_value opts @ ''_'' @ clip_value opts"
    by (simp add: basis_stem_def)
  ultimately show ?thesis
    using proj_angles_example [of opts] proj_angles_negative [of opts]
      proj_angles_rounded [of opts] by blast
qed

text \<open>
  The claim as it is written fails: these four angles do not give \<^verbatim>\<open>04590135\<close>
  (which writes them in degrees).
\<close>

theorem proj_angles_counterexample:
  "proj_angles_value (no_options\<lparr>proj_angles := Some [0, np_pi / 4, np_pi / 2, 3 * np_pi / 4]\<rparr>)
     \<noteq> ''04590135''"
  by (simp add: proj_angles_example)

subsection \<open>The scan of the directory\<close>






subsection \<open>Reuse of a saved basis\<close>

lemma linbasex_second_call:
  assumes "fs ''cache'' = [(''linbasex_basis_64_64_02_050_64_0.npy'', A)]"
  shows "get_bs_cached g ''linbasex'' 64 64 (Some ''cache'') None no_options fs =
     \<lparr>result = Inr (trim 64 64 A),
      events = [Glob ''cache/linbasex_basis*'',
                Load ''cache/linbasex_basis_64_64_02_050_64_0.npy''],
      files = fs\<rparr>"
  using assms
  by (simp add: get_bs_cached_def memory_cached_def basis_generator_def glob_basis_def
      fnmatch_filter_def startswith_def size_field_linbasex_example path_join_def)

text \<open>
  C3 does not hold of the code for \<^verbatim>\<open>linbasex\<close>. The second-to-last token of a
  \<^verbatim>\<open>linbasex\<close> name is the radial step, and line 105 reads it as the size; the other
  values that the name carries are never compared. A first call for the size 64 with a
  radial step of 64 saves its basis as \<^verbatim>\<open>linbasex_basis_64_64_02_050_64_0.npy\<close>. A
  second call for the size 64 without options, whose own name is
  \<^verbatim>\<open>linbasex_basis_64_64_02_050_1_0.npy\<close>, loads that file and returns its basis: a
  basis generated for other options.
\<close>

theorem linbasex_reuse_ignores_options:
  "files (get_bs_cached g ''linbasex'' 64 64 (Some ''cache'') None
            (no_options\<lparr>radial_step := Some 64\<rparr>) empty_store) ''cache'' =
     [(''linbasex_basis_64_64_02_050_64_0.npy'',
       bs_linbasex g 64 (no_options\<lparr>radial_step := Some 64\<rparr>))] \<and>
   basis_name ''linbasex'' 64 64 no_options = ''linbasex_basis_64_64_02_050_1_0.npy'' \<and>
   get_bs_cached g ''linbasex'' 64 64 (Some ''cache'') None no_options
     (files (get_bs_cached g ''linbasex'' 64 64 (Some ''cache'') None
               (no_options\<lparr>radial_step := Some 64\<rparr>) empty_store)) =
     \<lparr>result = Inr (trim 64 64 (bs_linbasex g 64 (no_options\<lparr>radial_step := Some 64\<rparr>))),
      events = [Glob ''cache/linbasex_basis*'',
                Load ''cache/linbasex_basis_64_64_02_050_64_0.npy''],
      files = files (get_bs_cached g ''linbasex'' 64 64 (Some ''cache'') None
                       (no_options\<lparr>radial_step := Some 64\<rparr>) empty_store)\<rparr>"
proof -
  let ?opts = "no_options\<lparr>radial_step := Some 64\<rparr>"
  let ?first = "get_bs_cached g ''linbasex'' 64 64 (Some ''cache'') None ?opts empty_store"
  have first: "?first = generate_and_save (bs_linbasex g) ''linbasex'' 64 64 (Some ''cache'') ?opts
      [Glob (path_join ''cache'' ''linbasex_basis*'')] empty_store"
    by (simp add: get_bs_cached_def memory_cached_def basis_generator_def glob_basis_def
        fnmatch_filter_def empty_store_def)
  have files: "files ?first ''cache'' =
      [(''linbasex_basis_64_64_02_050_64_0.npy'', bs_linbasex g 64 ?opts)]"
    unfolding first
    by (simp add: files_generate_and_save np_save_def linbasex_names empty_store_def)
  have second: "get_bs_cached g ''linbasex'' 64 64 (Some ''cache'') None no_options (files ?first) =
     \<lparr>result = Inr (trim 64 64 (bs_linbasex g 64 ?opts)),
      events = [Glob ''cache/linbasex_basis*'',
                Load ''cache/linbasex_basis_64_64_02_050_64_0.npy''],
      files = files ?first\<rparr>"
    using files by (rule linbasex_second_call [of "files ?first"])
  from files second show ?thesis
    by (simp only: linbasex_names simp_thms)
qed

text \<open>
  The same reading keeps a basis saved without options from being reused at all: its
  token is \<^verbatim>\<open>1\<close>, which is below every size above one, and the call generates again.
\<close>

lemma linbasex_default_file_not_reused:
  "events (get_bs_cached g ''linbasex'' 64 64 (Some ''cache'') None no_options
     (empty_store(''cache'' := [(''linbasex_basis_64_64_02_050_1_0.npy'', A)]))) =
     [Glob ''cache/linbasex_basis*'', Generate ''linbasex'' 64,
      Save ''cache/linbasex_basis_64_64_02_050_1_0.npy'']"
  by (simp add: get_bs_cached_def memory_cached_def basis_generator_def glob_basis_def
      fnmatch_filter_def startswith_def size_field_linbasex_default path_join_def
      events_generate_and_save linbasex_names)



subsection \<open>Generation\<close>





end
